theory Spec2Isabelle
  imports Complex_Main
begin

section \<open>Python values and helpers\<close>

text \<open>
  The values a request can carry: what \<^verbatim>\<open>json.loads\<close> produces, which is also what the
  placeholder issue record holds. A dict keeps its items in insertion order; its keys are
  unique, and a lookup takes the item of the key. JSON numbers with a fraction or an
  exponent (Python floats) are outside the embedding.
\<close>

datatype pyobj =
    PyNone
  | PyBool bool
  | PyInt int
  | PyStr string
  | PyList "pyobj list"
  | PyDict "(string \<times> pyobj) list"

text \<open>The exceptions of the module, as values: the class and its message.\<close>

datatype error =
    ValueError string
  | JSONDecodeError string
  | AttributeError string
  | KeyError string
  | ValidationError string
  | Exception string

fun str_error :: "error \<Rightarrow> string" where
  "str_error (ValueError m) = m"
| "str_error (JSONDecodeError m) = m"
| "str_error (AttributeError m) = m"
| "str_error (KeyError m) = m"
| "str_error (ValidationError m) = m"
| "str_error (Exception m) = m"

text \<open>\<^verbatim>\<open>d.get(key, default)\<close> and Python's truth value of an object (\<^verbatim>\<open>not x\<close>, \<^verbatim>\<open>if x\<close>).\<close>

definition dict_get :: "(string \<times> pyobj) list \<Rightarrow> string \<Rightarrow> pyobj \<Rightarrow> pyobj" where
  "dict_get d key dflt = (case map_of d key of None \<Rightarrow> dflt | Some v \<Rightarrow> v)"

fun truthy :: "pyobj \<Rightarrow> bool" where
  "truthy PyNone = False"
| "truthy (PyBool b) = b"
| "truthy (PyInt i) = (i \<noteq> 0)"
| "truthy (PyStr s) = (s \<noteq> [])"
| "truthy (PyList xs) = (xs \<noteq> [])"
| "truthy (PyDict kvs) = (kvs \<noteq> [])"

text \<open>\<^verbatim>\<open>str(n)\<close> for an int: decimal digits, a minus sign for a negative number.\<close>

definition digit_char :: "nat \<Rightarrow> char" where
  "digit_char d = ''0123456789'' ! d"

function str_nat :: "nat \<Rightarrow> string" where
  "str_nat n = (if n < 10 then [digit_char n] else str_nat (n div 10) @ [digit_char (n mod 10)])"
  by pat_completeness auto
termination
  by (relation "measure (\<lambda>n. n)") auto

declare str_nat.simps [simp del]

definition str_int :: "int \<Rightarrow> string" where
  "str_int i = (if i < 0 then ''-'' @ str_nat (nat (- i)) else str_nat (nat i))"

text \<open>\<^verbatim>\<open>sep.join(parts)\<close>.\<close>

fun py_join :: "string \<Rightarrow> string list \<Rightarrow> string" where
  "py_join sep [] = []"
| "py_join sep [x] = x"
| "py_join sep (x # y # ys) = x @ sep @ py_join sep (y # ys)"

text \<open>
  \<^verbatim>\<open>str(x)\<close> as an f-string applies it. A string is itself; anything else prints as its
  \<^verbatim>\<open>repr\<close>. The \<^verbatim>\<open>repr\<close> of a string inside a container is written here with single
  quotes and no escapes, which is Python's output for a string without quotes,
  backslashes or control characters.
\<close>

abbreviation nl :: string where
  "nl \<equiv> [CHR 0x0A]"

abbreviation quote :: string where
  "quote \<equiv> [CHR 0x27]"

fun py_repr :: "pyobj \<Rightarrow> string" where
  "py_repr PyNone = ''None''"
| "py_repr (PyBool b) = (if b then ''True'' else ''False'')"
| "py_repr (PyInt i) = str_int i"
| "py_repr (PyStr s) = quote @ s @ quote"
| "py_repr (PyList xs) = ''['' @ py_join '', '' (map py_repr xs) @ '']''"
| "py_repr (PyDict kvs) =
     ''{'' @ py_join '', '' (map (\<lambda>kv. quote @ fst kv @ quote @ '': '' @ py_repr (snd kv)) kvs) @ ''}''"

definition py_str :: "pyobj \<Rightarrow> string" where
  "py_str x = (case x of PyStr s \<Rightarrow> s | _ \<Rightarrow> py_repr x)"

text \<open>\<^verbatim>\<open>s.strip()\<close>: whitespace removed at both ends (the ASCII whitespace of Python).\<close>

definition is_space :: "char \<Rightarrow> bool" where
  "is_space c = (c \<in> set [CHR 0x20, CHR 0x09, CHR 0x0A, CHR 0x0D, CHR 0x0B, CHR 0x0C,
                            CHR 0x1C, CHR 0x1D, CHR 0x1E, CHR 0x1F])"

definition py_strip :: "string \<Rightarrow> string" where
  "py_strip s = rev (dropWhile is_space (rev (dropWhile is_space s)))"

section \<open>Events and items\<close>

text \<open>
  \<^verbatim>\<open>JiraBreakdownEvent\<close>, the request once parsed. \<^verbatim>\<open>Optional[str]\<close> is a
  \<^typ>\<open>string option\<close>.
\<close>

record JiraBreakdownEvent =
  jira_id :: string
  description :: "string option"
  user_id :: "string option"
  create_jira_items :: bool

text \<open>
  The two progress events, \<^verbatim>\<open>JiraFetchProgressEvent\<close> and \<^verbatim>\<open>BreakdownProgressEvent\<close>, as the
  two constructors of one type, so that a run's events form one list. The fields
  \<^verbatim>\<open>stage\<close>, \<^verbatim>\<open>progress\<close> and \<^verbatim>\<open>message\<close> are common to both.
\<close>

datatype Event =
    JiraFetchProgressEvent (stage: string) (progress: int) (message: string) (jira_id: string)
  | BreakdownProgressEvent (stage: string) (progress: int) (message: string)
      (completed_agents: nat) (total_agents: nat)

text \<open>\<^verbatim>\<open>JiraItem\<close>; the defaults of its optional fields are written out where an item is built.\<close>

record JiraItem =
  item_type :: string
  title :: string
  description :: string
  acceptance_criteria :: "string list"
  story_points :: "int option"
  priority :: string
  components :: "string list"
  labels :: "string list"
  parent_epic :: "string option"

section \<open>What the module imports\<close>

text \<open>
  The collaborators whose code is not part of the module, as parameters of the model:
  \<^item> \<^verbatim>\<open>json.loads\<close>, which parses a string or raises;
  \<^item> the constructor \<^verbatim>\<open>JiraBreakdownEvent(jira_id=, description=, user_id=, create_jira_items=)\<close>,
    inherited from the validating base class: it checks the four values against the
    declared field types and raises when one does not fit;
  \<^item> \<^verbatim>\<open>get_agent_personas()\<close>, a dict from persona name to configuration, as its items in
    iteration order;
  \<^item> \<^verbatim>\<open>agent_manager.analyze_rfe(persona, feature_description, config)\<close>, which returns an
    analysis or raises an \<^verbatim>\<open>Exception\<close>. A run invokes it once per persona, and the keys of a
    dict are unique, so a function of the persona describes any run;
  \<^item> \<^verbatim>\<open>str(list(set(...)))\<close> over strings, whose order of elements depends on the hashing
    of the interpreter.
\<close>

record ('c, 'a) externals =
  json_loads :: "string \<Rightarrow> error + pyobj"
  new_JiraBreakdownEvent :: "pyobj \<Rightarrow> pyobj \<Rightarrow> pyobj \<Rightarrow> pyobj \<Rightarrow> error + JiraBreakdownEvent"
  get_agent_personas :: "(string \<times> 'c) list"
  analyze_rfe :: "string \<Rightarrow> string \<Rightarrow> 'c \<Rightarrow> error + 'a"
  str_list_set :: "string list \<Rightarrow> string"

text \<open>
  A validating constructor that takes the declared field types to the letter
  (\<^verbatim>\<open>str\<close>, \<^verbatim>\<open>Optional[str]\<close>, \<^verbatim>\<open>Optional[str]\<close>, \<^verbatim>\<open>bool\<close>) and converts nothing; it is one
  possible value of the parameter, used where a run is evaluated.
\<close>

definition optional_str :: "pyobj \<Rightarrow> string option option" where
  "optional_str v = (case v of PyNone \<Rightarrow> Some None | PyStr s \<Rightarrow> Some (Some s) | _ \<Rightarrow> None)"

definition declared_fields :: "pyobj \<Rightarrow> pyobj \<Rightarrow> pyobj \<Rightarrow> pyobj \<Rightarrow> error + JiraBreakdownEvent" where
  "declared_fields j d u c =
     (case (j, optional_str d, optional_str u, c) of
        (PyStr js, Some ds, Some us, PyBool cb) \<Rightarrow>
          Inr \<lparr>JiraBreakdownEvent.jira_id = js, JiraBreakdownEvent.description = ds,
               user_id = us, create_jira_items = cb\<rparr>
      | _ \<Rightarrow> Inl (ValidationError ''JiraBreakdownEvent''))"

section \<open>The workflow context and the effects of a run\<close>

text \<open>
  What a run does beside computing its result, in the order in which it does it: the
  events it emits (\<^verbatim>\<open>ctx.send_event\<close>, and the progress event a step returns), the lines
  it prints (\<^verbatim>\<open>print\<close>), and the personas it invokes the agent manager on
  (\<^verbatim>\<open>agent_manager.analyze_rfe\<close>).
\<close>

datatype effect =
    Sends Event
  | Prints string
  | Invokes string

fun events :: "effect list \<Rightarrow> Event list" where
  "events [] = []"
| "events (Sends e # t) = e # events t"
| "events (Prints l # t) = events t"
| "events (Invokes p # t) = events t"

fun stdout :: "effect list \<Rightarrow> string list" where
  "stdout [] = []"
| "stdout (Sends e # t) = stdout t"
| "stdout (Prints l # t) = l # stdout t"
| "stdout (Invokes p # t) = stdout t"

fun analyze_rfe_calls :: "effect list \<Rightarrow> string list" where
  "analyze_rfe_calls [] = []"
| "analyze_rfe_calls (Sends e # t) = analyze_rfe_calls t"
| "analyze_rfe_calls (Prints l # t) = analyze_rfe_calls t"
| "analyze_rfe_calls (Invokes p # t) = p # analyze_rfe_calls t"

text \<open>
  The state threaded through the steps: the effects so far, and the values that \<^verbatim>\<open>ctx\<close>
  keeps by \<^verbatim>\<open>ctx.set\<close> under the keys \<^verbatim>\<open>"jira_details"\<close>, \<^verbatim>\<open>"original_event"\<close> and
  \<^verbatim>\<open>"agent_analyses"\<close>, one field per key, \<^term>\<open>None\<close> while the key is not set
  (\<^verbatim>\<open>ctx.get\<close> of such a key raises \<^verbatim>\<open>ValueError\<close>, here with the key as its message).
  Each key only ever receives values of one type.
\<close>

record 'a Context =
  trace :: "effect list"
  ctx_jira_details :: "(string \<times> pyobj) list option"
  ctx_original_event :: "JiraBreakdownEvent option"
  ctx_agent_analyses :: "(string \<rightharpoonup> 'a) option"

definition new_context :: "'a Context" where
  "new_context = \<lparr>trace = [], ctx_jira_details = None, ctx_original_event = None,
                   ctx_agent_analyses = None\<rparr>"

definition send_event :: "'a Context \<Rightarrow> Event \<Rightarrow> 'a Context" where
  "send_event ctx ev = ctx\<lparr>trace := trace ctx @ [Sends ev]\<rparr>"

definition print :: "'a Context \<Rightarrow> string \<Rightarrow> 'a Context" where
  "print ctx line = ctx\<lparr>trace := trace ctx @ [Prints line]\<rparr>"

definition invoking :: "'a Context \<Rightarrow> string \<Rightarrow> 'a Context" where
  "invoking ctx persona = ctx\<lparr>trace := trace ctx @ [Invokes persona]\<rparr>"

definition ctx_get :: "'v option \<Rightarrow> string \<Rightarrow> error + 'v" where
  "ctx_get slot key = (case slot of None \<Rightarrow> Inl (ValueError key) | Some v \<Rightarrow> Inr v)"

section \<open>The steps of \<^verbatim>\<open>JiraBreakdownWorkflow\<close>\<close>

text \<open>
  A step that can raise returns \<^typ>\<open>error + 'r\<close>, with \<^term>\<open>Inl\<close> the exception. The private
  methods keep their names without the leading underscore (\<^verbatim>\<open>_create_jira_items\<close>, whose
  name is then that of a field, is \<open>create_jira_items'\<close>).
\<close>

subsection \<open>\<^verbatim>\<open>start_jira_breakdown\<close>\<close>

text \<open>A \<^verbatim>\<open>StartEvent\<close> is the dict of its attributes.\<close>

type_synonym StartEvent = "(string \<times> pyobj) list"

definition start_jira_breakdown :: "('c, 'a) externals \<Rightarrow> StartEvent \<Rightarrow> error + JiraBreakdownEvent" where
  "start_jira_breakdown ext ev =
     (let input_data = dict_get ev ''input'' (PyDict []) in
      case (case input_data of PyStr s \<Rightarrow> json_loads ext s | _ \<Rightarrow> Inr input_data) of
        Inl e \<Rightarrow> Inl e
      | Inr (PyDict d) \<Rightarrow>
          (let jira_id = dict_get d ''jira_id'' (PyStr '''');
               description = dict_get d ''description'' PyNone;
               user_id = dict_get d ''user_id'' PyNone;
               create_jira_items = dict_get d ''create_jira_items'' (PyBool False)
           in if \<not> truthy jira_id then Inl (ValueError ''jira_id is required'')
              else new_JiraBreakdownEvent ext jira_id description user_id create_jira_items)
      | Inr _ \<Rightarrow> Inl (AttributeError ''get''))"

subsection \<open>\<^verbatim>\<open>fetch_jira_details\<close> and the placeholder \<^verbatim>\<open>_fetch_jira_via_mcp\<close>\<close>

definition fetch_jira_via_mcp :: "string \<Rightarrow> (string \<times> pyobj) list" where
  "fetch_jira_via_mcp = (\<lambda>jira_id.
     [(''id'', PyStr jira_id),
      (''summary'', PyStr (''Feature from '' @ jira_id)),
      (''description'', PyStr ''Placeholder JIRA description''),
      (''status'', PyStr ''Open''),
      (''project'', PyStr ''RHOAIENG''),
      (''issue_type'', PyStr ''Story''),
      (''priority'', PyStr ''Medium''),
      (''assignee'', PyNone),
      (''reporter'', PyStr ''system''),
      (''labels'', PyList []),
      (''components'', PyList [])])"

definition fetch_jira_details :: "'a Context \<Rightarrow> JiraBreakdownEvent \<Rightarrow> Event \<times> 'a Context" where
  "fetch_jira_details ctx ev =
     (let ctx = send_event ctx
            (JiraFetchProgressEvent ''fetching_jira'' 10
               (''Fetching details for '' @ JiraBreakdownEvent.jira_id ev)
               (JiraBreakdownEvent.jira_id ev));
          jira_details = fetch_jira_via_mcp (JiraBreakdownEvent.jira_id ev);
          ctx = ctx\<lparr>ctx_jira_details := Some jira_details\<rparr>;
          ctx = ctx\<lparr>ctx_original_event := Some ev\<rparr>
      in (JiraFetchProgressEvent ''jira_fetched'' 25
            (''Successfully fetched '' @ JiraBreakdownEvent.jira_id ev)
            (JiraBreakdownEvent.jira_id ev),
          ctx))"

subsection \<open>\<^verbatim>\<open>analyze_with_agents\<close>\<close>

definition prepare_feature_description ::
    "(string \<times> pyobj) list \<Rightarrow> string option \<Rightarrow> error + string" where
  "prepare_feature_description jira_details additional_description =
     (case map_of jira_details ''id'' of
        None \<Rightarrow> Inl (KeyError ''id'')
      | Some i \<Rightarrow>
     (case map_of jira_details ''summary'' of
        None \<Rightarrow> Inl (KeyError ''summary'')
      | Some s \<Rightarrow>
          (let description_parts =
                 [''JIRA ID: '' @ py_str i,
                  ''Summary: '' @ py_str s,
                  ''Description: '' @
                     py_str (dict_get jira_details ''description'' (PyStr ''No description''))];
               description_parts =
                 (case additional_description of
                    None \<Rightarrow> description_parts
                  | Some a \<Rightarrow>
                      if a \<noteq> [] then description_parts @ [''Additional Context: '' @ a]
                      else description_parts)
           in Inr (py_join (nl @ nl) description_parts))))"

text \<open>
  The loop over \<^verbatim>\<open>agent_personas.items()\<close>, with its local variables
  \<^verbatim>\<open>agent_analyses\<close> and \<^verbatim>\<open>completed\<close>; \<open>n_agents\<close> is \<^verbatim>\<open>total_agents\<close>. An exception of the
  analysis is caught, printed, and the loop goes on. The quotient
  \<^verbatim>\<open>completed / total_agents\<close> and its product with 40 are taken exactly, where Python
  rounds each to a binary64 float before \<^verbatim>\<open>int\<close> truncates: rounding keeps the order of
  the values and is exact at 1.0 and 40.0.
\<close>

fun analyze_loop ::
    "('c, 'a) externals \<Rightarrow> string \<Rightarrow> nat \<Rightarrow> (string \<times> 'c) list \<Rightarrow>
     (string \<rightharpoonup> 'a) \<Rightarrow> nat \<Rightarrow> 'a Context \<Rightarrow> (string \<rightharpoonup> 'a) \<times> nat \<times> 'a Context" where
  "analyze_loop ext feature_description n_agents [] agent_analyses completed ctx =
     (agent_analyses, completed, ctx)"
| "analyze_loop ext feature_description n_agents ((persona, config) # rest)
       agent_analyses completed ctx =
     (let ctx = invoking ctx persona in
      case analyze_rfe ext persona feature_description config of
        Inr analysis \<Rightarrow>
          (let agent_analyses = agent_analyses(persona \<mapsto> analysis);
               completed = completed + 1;
               progress = 30 + \<lfloor>(rat_of_nat completed / rat_of_nat n_agents) * 40\<rfloor>;
               ctx = send_event ctx
                       (BreakdownProgressEvent ''agent_analysis'' progress
                          (''Completed analysis: '' @ persona) completed n_agents)
           in analyze_loop ext feature_description n_agents rest agent_analyses completed ctx)
      | Inl e \<Rightarrow>
          (let ctx = print ctx (''Error analyzing with '' @ persona @ '': '' @ str_error e)
           in analyze_loop ext feature_description n_agents rest agent_analyses completed ctx))"

definition analyze_with_agents ::
    "('c, 'a) externals \<Rightarrow> 'a Context \<Rightarrow> Event \<Rightarrow> error + Event \<times> 'a Context" where
  "analyze_with_agents ext ctx ev =
     (case ctx_get (ctx_jira_details ctx) ''jira_details'' of
        Inl e \<Rightarrow> Inl e
      | Inr jira_details \<Rightarrow>
     (case ctx_get (ctx_original_event ctx) ''original_event'' of
        Inl e \<Rightarrow> Inl e
      | Inr original_event \<Rightarrow>
     (case prepare_feature_description jira_details
             (JiraBreakdownEvent.description original_event) of
        Inl e \<Rightarrow> Inl e
      | Inr feature_description \<Rightarrow>
          (let agent_personas = get_agent_personas ext;
               total_agents = length agent_personas;
               ctx = send_event ctx
                       (BreakdownProgressEvent ''agent_analysis'' 30
                          ''Starting multi-agent analysis'' 0 total_agents);
               (agent_analyses, completed, ctx) =
                  analyze_loop ext feature_description total_agents agent_personas
                    Map.empty 0 ctx;
               ctx = ctx\<lparr>ctx_agent_analyses := Some agent_analyses\<rparr>
           in Inr (BreakdownProgressEvent ''analysis_complete'' 70
                     ''Multi-agent analysis completed'' completed total_agents,
                   ctx)))))"

subsection \<open>\<^verbatim>\<open>synthesize_breakdown\<close> and its placeholders\<close>

text \<open>
  \<^verbatim>\<open>_synthesize_epics_and_stories\<close>: one epic and two stories, whatever the arguments.
  The fields an item does not give take the defaults of \<^verbatim>\<open>JiraItem\<close>.
\<close>

definition synthesize_epics_and_stories ::
    "(string \<times> pyobj) list \<Rightarrow> (string \<rightharpoonup> 'a) \<Rightarrow> JiraItem list \<times> JiraItem list" where
  "synthesize_epics_and_stories jira_details agent_analyses =
     (let epics =
            [\<lparr>item_type = ''epic'',
              title = ''Core Feature Implementation'',
              description = ''Main feature implementation based on agent analysis'',
              acceptance_criteria = [''Feature works as expected'', ''Passes all tests''],
              story_points = None,
              priority = ''Medium'',
              components = [''backend'', ''frontend''],
              labels = [''feature'', ''ai-generated''],
              parent_epic = None\<rparr>];
          stories =
            [\<lparr>item_type = ''story'',
              title = ''Backend API Development'',
              description = ''Develop backend APIs for the feature'',
              acceptance_criteria = [''API endpoints created'', ''Tests pass''],
              story_points = Some 5,
              priority = ''Medium'',
              components = [''backend''],
              labels = [''backend'', ''api''],
              parent_epic = Some ''Core Feature Implementation''\<rparr>,
             \<lparr>item_type = ''story'',
              title = ''Frontend UI Implementation'',
              description = ''Create frontend user interface'',
              acceptance_criteria = [''UI components created'', ''UX requirements met''],
              story_points = Some 3,
              priority = ''Medium'',
              components = [''frontend''],
              labels = [''frontend'', ''ui''],
              parent_epic = Some ''Core Feature Implementation''\<rparr>]
      in (epics, stories))"

text \<open>
  \<^verbatim>\<open>_create_jira_items\<close>: its two loops append one identifier per item to the same list
  \<^verbatim>\<open>created_items\<close>, first over the epics, then over the stories.
\<close>

fun append_created :: "JiraItem list \<Rightarrow> string list \<Rightarrow> string list" where
  "append_created [] created_items = created_items"
| "append_created (item # rest) created_items =
     (let item_id = ''RHOAIENG-'' @ str_nat (1000 + length created_items)
      in append_created rest (created_items @ [item_id]))"

definition create_jira_items' :: "JiraItem list \<Rightarrow> JiraItem list \<Rightarrow> string list" where
  "create_jira_items' epics stories =
     (let created_items = [];
          created_items = append_created epics created_items;
          created_items = append_created stories created_items
      in created_items)"

text \<open>
  \<^verbatim>\<open>_generate_breakdown_summary\<close>. The generator under \<^verbatim>\<open>sum\<close> keeps the stories whose
  \<^verbatim>\<open>story_points\<close> is true as a condition, that is neither \<^verbatim>\<open>None\<close> nor 0.
\<close>

definition points_truthy :: "int option \<Rightarrow> bool" where
  "points_truthy p = (case p of None \<Rightarrow> False | Some n \<Rightarrow> n \<noteq> 0)"

definition total_story_points :: "JiraItem list \<Rightarrow> int" where
  "total_story_points stories =
     sum_list (map (\<lambda>story. the (story_points story))
                 (filter (\<lambda>story. points_truthy (story_points story)) stories))"

definition generate_breakdown_summary ::
    "('c, 'a) externals \<Rightarrow> JiraItem list \<Rightarrow> JiraItem list \<Rightarrow> string" where
  "generate_breakdown_summary ext epics stories =
     py_strip
       (nl @ ''Feature breakdown completed:'' @ nl @
        ''- '' @ str_nat (length epics) @ '' epic(s) identified'' @ nl @
        ''- '' @ str_nat (length stories) @ '' story/stories created'' @ nl @
        ''- Total estimated story points: '' @ str_int (total_story_points stories) @ nl @
        ''- Components involved: '' @
           str_list_set ext (concat (map components (epics @ stories))) @ nl)"

text \<open>
  \<^verbatim>\<open>JiraBreakdownResponse\<close>. Its fields \<^verbatim>\<open>processing_time\<close> and \<^verbatim>\<open>timestamp\<close> are readings of
  the clock and are left out, with the \<^verbatim>\<open>start_time\<close> they are computed from. The analyses
  are a dict from persona name to analysis; the type \<^typ>\<open>'a\<close> of an analysis is whatever
  the agent manager returns.
\<close>

record 'a JiraBreakdownResponse =
  original_jira_id :: string
  original_summary :: string
  breakdown_summary :: string
  epics :: "JiraItem list"
  stories :: "JiraItem list"
  agent_analyses :: "string \<rightharpoonup> 'a"
  created_jira_items :: "string list option"

text \<open>
  The step. The summary handed to the response must be a \<^verbatim>\<open>str\<close>, as the field
  \<^verbatim>\<open>original_summary\<close> declares.
\<close>

definition synthesize_breakdown ::
    "('c, 'a) externals \<Rightarrow> 'a Context \<Rightarrow> Event \<Rightarrow> error + 'a JiraBreakdownResponse" where
  "synthesize_breakdown ext ctx ev =
     (case ctx_get (ctx_jira_details ctx) ''jira_details'' of
        Inl e \<Rightarrow> Inl e
      | Inr jira_details \<Rightarrow>
     (case ctx_get (ctx_agent_analyses ctx) ''agent_analyses'' of
        Inl e \<Rightarrow> Inl e
      | Inr analyses \<Rightarrow>
     (case ctx_get (ctx_original_event ctx) ''original_event'' of
        Inl e \<Rightarrow> Inl e
      | Inr original_event \<Rightarrow>
          (let (epics, stories) = synthesize_epics_and_stories jira_details analyses;
               created_jira_items =
                 (if create_jira_items original_event
                  then Some (create_jira_items' epics stories) else None)
           in case dict_get jira_details ''summary'' (PyStr '''') of
                PyStr summary \<Rightarrow>
                  Inr \<lparr>original_jira_id = JiraBreakdownEvent.jira_id original_event,
                       original_summary = summary,
                       breakdown_summary = generate_breakdown_summary ext epics stories,
                       epics = epics,
                       stories = stories,
                       agent_analyses = analyses,
                       created_jira_items = created_jira_items\<rparr>
              | _ \<Rightarrow> Inl (ValidationError ''original_summary'')))))"

subsection \<open>A run of the workflow\<close>

text \<open>
  The engine that drives the steps is not part of the module. The type of the event a
  step accepts fixes the order: \<^verbatim>\<open>StartEvent\<close>, \<^verbatim>\<open>JiraBreakdownEvent\<close>,
  \<^verbatim>\<open>JiraFetchProgressEvent\<close>, \<^verbatim>\<open>BreakdownProgressEvent\<close>, and the response ends the run. The
  progress event a step returns joins the stream after the events the step has sent.
  An exception in a step ends the run with that exception. A run gives its outcome and
  the context it leaves.
\<close>

definition run_workflow ::
    "('c, 'a) externals \<Rightarrow> StartEvent \<Rightarrow> (error + 'a JiraBreakdownResponse) \<times> 'a Context" where
  "run_workflow ext ev =
     (let ctx = new_context in
      case start_jira_breakdown ext ev of
        Inl e \<Rightarrow> (Inl e, ctx)
      | Inr request \<Rightarrow>
          (let (fetched, ctx) = fetch_jira_details ctx request;
               ctx = send_event ctx fetched
           in case analyze_with_agents ext ctx fetched of
                Inl e \<Rightarrow> (Inl e, ctx)
              | Inr (analyzed, ctx) \<Rightarrow>
                  (let ctx = send_event ctx analyzed
                   in case synthesize_breakdown ext ctx analyzed of
                        Inl e \<Rightarrow> (Inl e, ctx)
                      | Inr response \<Rightarrow> (Inr response, ctx))))"

section \<open>Notions used to state the properties\<close>

text \<open>
  The feature description that a run prepares for a request: the one
  \<^verbatim>\<open>_prepare_feature_description\<close> builds from the fetched issue record and the description
  of the request (the preparation cannot fail on a fetched record, see
  \<open>prepare_fetched\<close> below).
\<close>

definition feature_description_of :: "JiraBreakdownEvent \<Rightarrow> string" where
  "feature_description_of request =
     (case prepare_feature_description
             (fetch_jira_via_mcp (JiraBreakdownEvent.jira_id request))
             (JiraBreakdownEvent.description request) of
        Inr fd \<Rightarrow> fd
      | Inl e \<Rightarrow> [])"

text \<open>A persona (an item of the personas dict) fails when its analysis raises.\<close>

definition fails :: "('c, 'a) externals \<Rightarrow> string \<Rightarrow> string \<times> 'c \<Rightarrow> bool" where
  "fails ext fd item = isl (analyze_rfe ext (fst item) fd (snd item))"


text \<open>
  The fan-out of an accepted request, in closed form: the context in which the loop of
  \<^verbatim>\<open>analyze_with_agents\<close> starts (after the fetch step and the first event of the analysis
  step), the loop run from there, and the response the last step builds from it.
\<close>

definition loop_entry :: "('c, 'a) externals \<Rightarrow> JiraBreakdownEvent \<Rightarrow> 'a Context" where
  "loop_entry ext request =
     \<lparr>trace = [Sends (JiraFetchProgressEvent ''fetching_jira'' 10
                        (''Fetching details for '' @ JiraBreakdownEvent.jira_id request)
                        (JiraBreakdownEvent.jira_id request)),
               Sends (JiraFetchProgressEvent ''jira_fetched'' 25
                        (''Successfully fetched '' @ JiraBreakdownEvent.jira_id request)
                        (JiraBreakdownEvent.jira_id request)),
               Sends (BreakdownProgressEvent ''agent_analysis'' 30
                        ''Starting multi-agent analysis'' 0 (length (get_agent_personas ext)))],
      ctx_jira_details = Some (fetch_jira_via_mcp (JiraBreakdownEvent.jira_id request)),
      ctx_original_event = Some request,
      ctx_agent_analyses = None\<rparr>"

definition fan_out ::
    "('c, 'a) externals \<Rightarrow> JiraBreakdownEvent \<Rightarrow> (string \<rightharpoonup> 'a) \<times> nat \<times> 'a Context" where
  "fan_out ext request =
     analyze_loop ext (feature_description_of request) (length (get_agent_personas ext))
       (get_agent_personas ext) Map.empty 0 (loop_entry ext request)"

definition response_of ::
    "('c, 'a) externals \<Rightarrow> JiraBreakdownEvent \<Rightarrow> 'a JiraBreakdownResponse" where
  "response_of ext request =
     (let (epics, stories) =
            synthesize_epics_and_stories (fetch_jira_via_mcp (JiraBreakdownEvent.jira_id request))
              (fst (fan_out ext request))
      in \<lparr>original_jira_id = JiraBreakdownEvent.jira_id request,
          original_summary = ''Feature from '' @ JiraBreakdownEvent.jira_id request,
          breakdown_summary = generate_breakdown_summary ext epics stories,
          epics = epics,
          stories = stories,
          agent_analyses = fst (fan_out ext request),
          created_jira_items =
            (if create_jira_items request then Some (create_jira_items' epics stories)
             else None)\<rparr>)"

text \<open>
  Concrete collaborators, for evaluating runs: three personas of which the second
  raises, a parser that knows one request string, the constructor
  \<^const>\<open>declared_fields\<close>, and the components printed in order of first occurrence.
\<close>

definition request_text :: string where
  \<open>request_text = ''{"jira_id": "RHOAIENG-669", "create_jira_items": true}''\<close>

definition request_dict :: "(string \<times> pyobj) list" where
  "request_dict = [(''jira_id'', PyStr ''RHOAIENG-669''), (''create_jira_items'', PyBool True)]"

definition three_personas :: "(string, string) externals" where
  "three_personas =
     \<lparr>json_loads = (\<lambda>s. if s = request_text then Inr (PyDict request_dict)
                          else Inl (JSONDecodeError s)),
      new_JiraBreakdownEvent = declared_fields,
      get_agent_personas = [(''PM'', ''product''), (''UX'', ''design''), (''QA'', ''testing'')],
      analyze_rfe = (\<lambda>persona feature_description config.
                       if persona = ''UX'' then Inl (Exception ''timed out'')
                       else Inr (''analysis by '' @ persona)),
      str_list_set = (\<lambda>xs. py_repr (PyList (map PyStr (remdups xs))))\<rparr>"

text \<open>The same collaborators with a single persona, which succeeds.\<close>

definition one_persona :: "(string, string) externals" where
  "one_persona = three_personas\<lparr>get_agent_personas := [(''PM'', ''product'')]\<rparr>"

text \<open>
  Start events: an analysis-only request given as an object, the request above given as
  a string and as an object, and a request with an empty identifier.
\<close>

definition analysis_only :: StartEvent where
  "analysis_only =
     [(''input'', PyDict [(''jira_id'', PyStr ''PROJ-1''), (''description'', PyNone),
                          (''create_jira_items'', PyBool False)])]"

definition as_text :: StartEvent where
  "as_text = [(''input'', PyStr request_text)]"

definition as_dict :: StartEvent where
  "as_dict = [(''input'', PyDict request_dict)]"


text \<open>The same collaborators when every analysis raises.\<close>

definition failing_personas :: "(string, string) externals" where
  "failing_personas =
     three_personas\<lparr>analyze_rfe :=
       (\<lambda>persona feature_description config. Inl (Exception ''unavailable''))\<rparr>"

text \<open>
  The events the start step makes of these requests, and the event of a request for
  an identifier that names no issue.
\<close>

definition pm_request :: JiraBreakdownEvent where
  "pm_request =
     \<lparr>JiraBreakdownEvent.jira_id = ''PROJ-1'', JiraBreakdownEvent.description = None,
      user_id = None, create_jira_items = False\<rparr>"

definition rh_request :: JiraBreakdownEvent where
  "rh_request =
     \<lparr>JiraBreakdownEvent.jira_id = ''RHOAIENG-669'', JiraBreakdownEvent.description = None,
      user_id = None, create_jira_items = True\<rparr>"


text \<open>A story with a given estimate, for evaluating the summary.\<close>

definition estimated :: "int option \<Rightarrow> JiraItem" where
  "estimated points =
     \<lparr>item_type = ''story'', title = ''Story'', description = ''A story'',
      acceptance_criteria = [], story_points = points, priority = ''Medium'',
      components = [], labels = [], parent_epic = None\<rparr>"

section \<open>Facts about the steps\<close>

subsection \<open>Effects\<close>

lemma events_append [simp]: "events (s @ t) = events s @ events t"
  by (induction s rule: events.induct) simp_all

lemma stdout_append [simp]: "stdout (s @ t) = stdout s @ stdout t"
  by (induction s rule: stdout.induct) simp_all

lemma analyze_rfe_calls_append [simp]:
  "analyze_rfe_calls (s @ t) = analyze_rfe_calls s @ analyze_rfe_calls t"
  by (induction s rule: analyze_rfe_calls.induct) simp_all

subsection \<open>The loop over the personas\<close>



lemma loop_store:
  "ctx_jira_details (snd (snd (analyze_loop ext fd n ps m c ctx))) = ctx_jira_details ctx"
  "ctx_original_event (snd (snd (analyze_loop ext fd n ps m c ctx))) = ctx_original_event ctx"
  by (induction ps arbitrary: m c ctx;
      auto simp: invoking_def send_event_def print_def Let_def split: sum.splits)+



lemma loop_dom:
  "dom (fst (analyze_loop ext fd n ps m c ctx)) =
     dom m \<union> fst ` set (filter (\<lambda>item. \<not> fails ext fd item) ps)"
proof (induction ps arbitrary: m c ctx)
  case Nil
  show ?case by simp
next
  case (Cons item ps)
  obtain p cfg where item: "item = (p, cfg)" by (cases item)
  show ?case
  proof (cases "analyze_rfe ext p fd cfg")
    case (Inl e)
    then show ?thesis by (simp add: item Cons.IH fails_def)
  next
    case (Inr a)
    have "dom (m(p \<mapsto> a)) = insert p (dom m)" by simp
    with Inr show ?thesis
      by (simp add: item Cons.IH fails_def Let_def del: fun_upd_apply dom_fun_upd)
  qed
qed



subsection \<open>An accepted request runs to its response\<close>

lemma prepare_fetched:
  "prepare_feature_description (fetch_jira_via_mcp (JiraBreakdownEvent.jira_id request))
     (JiraBreakdownEvent.description request) = Inr (feature_description_of request)"
  by (simp add: feature_description_of_def prepare_feature_description_def fetch_jira_via_mcp_def
        Let_def split: option.splits)

lemma analyze_with_agents_fetched:
  "analyze_with_agents ext
     (send_event (snd (fetch_jira_details new_context request))
        (fst (fetch_jira_details new_context request)))
     fetched =
   Inr (BreakdownProgressEvent ''analysis_complete'' 70 ''Multi-agent analysis completed''
          (fst (snd (fan_out ext request))) (length (get_agent_personas ext)),
        (snd (snd (fan_out ext request)))\<lparr>ctx_agent_analyses := Some (fst (fan_out ext request))\<rparr>)"
  by (simp add: analyze_with_agents_def fetch_jira_details_def send_event_def new_context_def
        ctx_get_def Let_def prepare_fetched fan_out_def loop_entry_def split: prod.splits)

lemma fan_out_store:
  "ctx_jira_details (snd (snd (fan_out ext request))) =
     Some (fetch_jira_via_mcp (JiraBreakdownEvent.jira_id request))"
  "ctx_original_event (snd (snd (fan_out ext request))) = Some request"
  by (simp_all add: fan_out_def loop_store loop_entry_def)

lemma synthesize_breakdown_analyzed:
  "synthesize_breakdown ext
     (send_event ((snd (snd (fan_out ext request)))
                    \<lparr>ctx_agent_analyses := Some (fst (fan_out ext request))\<rparr>) analyzed)
     analyzed' = Inr (response_of ext request)"
proof -
  have s: "dict_get (fetch_jira_via_mcp j) ''summary'' (PyStr '''') = PyStr (''Feature from '' @ j)"
    for j
    by (simp add: dict_get_def fetch_jira_via_mcp_def)
  show ?thesis
    by (simp add: Let_def split_beta synthesize_breakdown_def
          send_event_def ctx_get_def fan_out_store s response_of_def)
qed

lemma run_workflow_rejected:
  "start_jira_breakdown ext ev = Inl e \<Longrightarrow> run_workflow ext ev = (Inl e, new_context)"
  by (simp add: run_workflow_def)

lemma run_workflow_accepted:
  assumes "start_jira_breakdown ext ev = Inr request"
  shows "run_workflow ext ev =
           (Inr (response_of ext request),
            send_event ((snd (snd (fan_out ext request)))
                          \<lparr>ctx_agent_analyses := Some (fst (fan_out ext request))\<rparr>)
              (BreakdownProgressEvent ''analysis_complete'' 70
                 ''Multi-agent analysis completed''
                 (fst (snd (fan_out ext request))) (length (get_agent_personas ext))))"
  unfolding run_workflow_def
  by (simp add: assms Let_def split_beta analyze_with_agents_fetched
        synthesize_breakdown_analyzed)

subsection \<open>The fan-out of an accepted request\<close>




lemma fan_out_dom:
  "dom (fst (fan_out ext request)) =
     fst ` set (filter (\<lambda>item. \<not> fails ext (feature_description_of request) item)
                  (get_agent_personas ext))"
  by (simp add: fan_out_def loop_dom)








subsection \<open>Successful runs\<close>

lemma run_workflow_InrD:
  assumes "run_workflow ext ev = (Inr response, ctx)"
  shows "\<exists>request. start_jira_breakdown ext ev = Inr request \<and>
           response = response_of ext request \<and>
           ctx = send_event ((snd (snd (fan_out ext request)))
                          \<lparr>ctx_agent_analyses := Some (fst (fan_out ext request))\<rparr>)
              (BreakdownProgressEvent ''analysis_complete'' 70
                 ''Multi-agent analysis completed''
                 (fst (snd (fan_out ext request))) (length (get_agent_personas ext)))"
proof (cases "start_jira_breakdown ext ev")
  case (Inl e)
  with assms show ?thesis by (simp add: run_workflow_rejected)
next
  case (Inr request)
  with assms show ?thesis by (simp add: run_workflow_accepted)
qed

subsection \<open>The progress of the analysis\<close>







subsection \<open>Created identifiers\<close>

lemma upt_shift: "[n ..< n + k] = map (\<lambda>i. n + i) [0 ..< k]"
  by (simp add: list_eq_iff_nth_eq)

lemma upt_0_Suc_Cons: "[0 ..< Suc k] = 0 # map Suc [0 ..< k]"
  by (simp add: upt_conv_Cons map_Suc_upt del: upt_Suc)

lemma append_created_eq:
  "append_created items created =
     created @ map (\<lambda>i. ''RHOAIENG-'' @ str_nat (1000 + length created + i)) [0 ..< length items]"
proof (induction items arbitrary: created)
  case Nil
  show ?case by simp
next
  case (Cons item items)
  let ?new = "''RHOAIENG-'' @ str_nat (1000 + length created)"
  have "append_created (item # items) created = append_created items (created @ [?new])"
    by (simp add: Let_def)
  also have "\<dots> = (created @ [?new]) @
      map (\<lambda>i. ''RHOAIENG-'' @ str_nat (1000 + length (created @ [?new]) + i)) [0 ..< length items]"
    by (rule Cons.IH)
  also have "\<dots> = created @
      map (\<lambda>i. ''RHOAIENG-'' @ str_nat (1000 + length created + i)) (0 # map Suc [0 ..< length items])"
    by (simp add: comp_def add.assoc)
  finally show ?case
    by (simp only: upt_0_Suc_Cons list.size add_Suc_right add_0_right)
qed

lemma create_jira_items'_eq:
  "create_jira_items' es ss =
     map (\<lambda>i. ''RHOAIENG-'' @ str_nat (1000 + i)) [0 ..< length es] @
     map (\<lambda>i. ''RHOAIENG-'' @ str_nat (1000 + length es + i)) [0 ..< length ss]"
  by (simp add: create_jira_items'_def append_created_eq)

lemma create_jira_items'_upt:
  "create_jira_items' es ss =
     map (\<lambda>i. ''RHOAIENG-'' @ str_nat (1000 + i)) [0 ..< length es + length ss]"
proof -
  have "[0 ..< length es + length ss] = [0 ..< length es] @ map (\<lambda>i. length es + i) [0 ..< length ss]"
    by (simp add: upt_add_eq_append upt_shift)
  then show ?thesis
    by (simp add: create_jira_items'_eq comp_def add.assoc)
qed

subsection \<open>The summary\<close>

lemma py_strip_keeps:
  assumes pre: "\<forall>c \<in> set pre. is_space c"
      and h: "h \<noteq> []" "\<not> is_space (hd h)" "\<not> is_space (last h)"
  shows "\<exists>rest. py_strip (pre @ h @ t) = h @ rest"
proof -
  from pre have "dropWhile is_space (pre @ h @ t) = dropWhile is_space (h @ t)"
    by (simp add: dropWhile_append2)
  also from h have "\<dots> = h @ t"
    by (cases h) simp_all
  finally have front: "dropWhile is_space (pre @ h @ t) = h @ t" .
  have "\<exists>r. dropWhile is_space (rev t @ rev h) = r @ rev h"
  proof (cases "\<forall>c \<in> set (rev t). is_space c")
    case True
    then have "dropWhile is_space (rev t @ rev h) = dropWhile is_space (rev h)"
      by (intro dropWhile_append2) simp
    also from h have "\<dots> = rev h"
      by (cases "rev h") (simp_all add: last_rev [symmetric] hd_rev)
    finally show ?thesis by simp
  next
    case False
    then obtain c where "c \<in> set (rev t)" "\<not> is_space c" by blast
    then have "dropWhile is_space (rev t @ rev h) = dropWhile is_space (rev t) @ rev h"
      by (rule dropWhile_append1)
    then show ?thesis by blast
  qed
  then obtain r where "dropWhile is_space (rev (h @ t)) = r @ rev h" by auto
  then have "py_strip (pre @ h @ t) = h @ rev r"
    by (simp add: py_strip_def front)
  then show ?thesis by blast
qed

lemma total_story_points_Nil: "total_story_points [] = 0"
  by (simp add: total_story_points_def)

lemma total_story_points_Cons:
  "total_story_points (story # ss) =
     (case story_points story of None \<Rightarrow> 0 | Some p \<Rightarrow> p) + total_story_points ss"
  by (simp add: total_story_points_def points_truthy_def split: option.splits)

lemma total_story_points_eq:
  "total_story_points ss =
     sum_list (map (\<lambda>story. case story_points story of None \<Rightarrow> 0 | Some p \<Rightarrow> p) ss)"
  by (induction ss) (simp_all add: total_story_points_Cons total_story_points_Nil)

subsection \<open>The requests used for evaluation\<close>

lemma start_analysis_only:
  "start_jira_breakdown three_personas analysis_only = Inr pm_request"
  "start_jira_breakdown failing_personas analysis_only = Inr pm_request"
  "start_jira_breakdown one_persona analysis_only = Inr pm_request"
  by (simp_all add: three_personas_def one_persona_def failing_personas_def analysis_only_def
        start_jira_breakdown_def dict_get_def declared_fields_def optional_str_def pm_request_def)

lemma start_as_dict:
  "start_jira_breakdown three_personas as_dict = Inr rh_request"
  by (simp add: three_personas_def as_dict_def request_dict_def
        start_jira_breakdown_def dict_get_def declared_fields_def optional_str_def rh_request_def)

section \<open>The properties\<close>

subsection \<open>Rejection of a request without identifier\<close>



subsection \<open>The two forms of the input\<close>

text \<open>
  Claim C10. The start step takes the input either as an object or as a string. For a
  request object \<open>d\<close>, the string \<^verbatim>\<open>json.dumps(d)\<close> is one that \<^verbatim>\<open>json.loads\<close> parses back to
  \<open>d\<close>; for every such string, the start step yields on the string exactly what it yields
  on the object (the same event with the same four fields, or the same exception), and
  so the two runs are the same.
\<close>

theorem text_and_object_input_agree:
  assumes "json_loads ext (json_dumps d) = Inr (PyDict d)"
      and "map_of ev_text ''input'' = Some (PyStr (json_dumps d))"
      and "map_of ev_object ''input'' = Some (PyDict d)"
  shows "start_jira_breakdown ext ev_text = start_jira_breakdown ext ev_object \<and>
         run_workflow ext ev_text = run_workflow ext ev_object"
proof -
  from assms have "start_jira_breakdown ext ev_text = start_jira_breakdown ext ev_object"
    by (simp add: start_jira_breakdown_def dict_get_def)
  then show ?thesis
    by (simp add: run_workflow_def)
qed

text \<open>
  The request \<^verbatim>\<open>{"jira_id": "RHOAIENG-669", "create_jira_items": true}\<close> as a string and
  as an object.
\<close>

theorem text_and_object_input_agree_witness:
  "json_loads three_personas request_text = Inr (PyDict request_dict) \<and>
   start_jira_breakdown three_personas as_text = start_jira_breakdown three_personas as_dict \<and>
   start_jira_breakdown three_personas as_dict = Inr rh_request"
  using text_and_object_input_agree
          [of three_personas "\<lambda>d. request_text" request_dict as_text as_dict]
  by (simp add: start_as_dict) (simp add: three_personas_def as_text_def as_dict_def)

subsection \<open>The synthesized breakdown\<close>

text \<open>
  Claim C5. The synthesizer is total and returns at least one epic for every issue
  record and every map of analyses, the empty map included; hence every request that
  the start step accepts runs to a response whose list of epics is not empty.
\<close>

theorem synthesis_yields_an_epic:
  "fst (synthesize_epics_and_stories jira_details Map.empty) \<noteq> [] \<and>
   fst (synthesize_epics_and_stories jira_details analyses) \<noteq> [] \<and>
   (start_jira_breakdown ext ev = Inr request \<longrightarrow>
      (\<exists>response ctx. run_workflow ext ev = (Inr response, ctx) \<and> epics response \<noteq> []))"
  by (simp add: run_workflow_accepted response_of_def synthesize_epics_and_stories_def)

text \<open>A run in which every persona fails: the analyses are empty, the epics are not.\<close>

theorem synthesis_yields_an_epic_witness:
  "start_jira_breakdown failing_personas analysis_only = Inr pm_request \<and>
   (\<exists>response ctx. run_workflow failing_personas analysis_only = (Inr response, ctx) \<and>
       epics response \<noteq> [] \<and> dom (agent_analyses response) = {})"
proof -
  have "dom (fst (fan_out failing_personas pm_request)) = {}"
    by (simp add: fan_out_dom fails_def failing_personas_def)
  with synthesis_yields_an_epic [of "[]" Map.empty failing_personas analysis_only pm_request]
  show ?thesis
    by (simp add: start_analysis_only run_workflow_accepted response_of_def split_beta
          synthesize_epics_and_stories_def)
qed

text \<open>
  Claim C6. In the response of every successful run, the parent reference of a story,
  when it is set, is the title of an epic of the same response (an item has no
  identifier other than its title).
\<close>

theorem parent_references_resolve:
  assumes "run_workflow ext ev = (Inr response, ctx)"
  shows "\<forall>story \<in> set (stories response). \<forall>parent.
           parent_epic story = Some parent \<longrightarrow> parent \<in> title ` set (epics response)"
proof -
  from run_workflow_InrD [OF assms] obtain request where "response = response_of ext request"
    by blast
  then show ?thesis
    by (simp add: response_of_def synthesize_epics_and_stories_def)
qed

theorem parent_references_resolve_witness:
  "run_workflow three_personas analysis_only =
     (Inr (response_of three_personas pm_request),
      snd (run_workflow three_personas analysis_only)) \<and>
   map parent_epic (stories (response_of three_personas pm_request)) =
     [Some ''Core Feature Implementation'', Some ''Core Feature Implementation''] \<and>
   map title (epics (response_of three_personas pm_request)) = [''Core Feature Implementation'']"
  using parent_references_resolve [of three_personas analysis_only
          "response_of three_personas pm_request"
          "snd (run_workflow three_personas analysis_only)"]
  by (simp add: run_workflow_accepted start_analysis_only response_of_def
        synthesize_epics_and_stories_def)

subsection \<open>Created items\<close>

text \<open>
  Claim C7. In a successful run of a request with \<^verbatim>\<open>create_jira_items\<close> false, the
  created-items list of the response is \<^verbatim>\<open>None\<close>. With \<^verbatim>\<open>create_jira_items\<close> true it is the
  list the write stage returns for the epics and stories of the response (the
  placeholder write cannot fail): one identifier per item, so its length is
  \<^verbatim>\<open>len(epics) + len(stories)\<close>, numbered from 1000 in the order of the items, the
  identifiers of the epics first (they are what the epics alone would get) and those of
  the stories after them.
\<close>

theorem created_items_follow_request:
  assumes "run_workflow ext ev = (Inr response, ctx)"
      and "start_jira_breakdown ext ev = Inr request"
  shows "(\<not> create_jira_items request \<longrightarrow> created_jira_items response = None) \<and>
         (create_jira_items request \<longrightarrow>
            created_jira_items response =
              Some (create_jira_items' (epics response) (stories response))) \<and>
         create_jira_items' (epics response) (stories response) =
           map (\<lambda>i. ''RHOAIENG-'' @ str_nat (1000 + i))
             [0 ..< length (epics response) + length (stories response)] \<and>
         length (create_jira_items' (epics response) (stories response)) =
           length (epics response) + length (stories response) \<and>
         take (length (epics response)) (create_jira_items' (epics response) (stories response)) =
           create_jira_items' (epics response) [] \<and>
         drop (length (epics response)) (create_jira_items' (epics response) (stories response)) =
           map (\<lambda>i. ''RHOAIENG-'' @ str_nat (1000 + length (epics response) + i))
             [0 ..< length (stories response)]"
proof -
  from assms have r: "response = response_of ext request"
    by (simp add: run_workflow_accepted)
  have a: "\<not> create_jira_items request \<longrightarrow> created_jira_items response = None"
    by (simp add: r response_of_def split_beta)
  have b: "create_jira_items request \<longrightarrow>
             created_jira_items response =
               Some (create_jira_items' (epics response) (stories response))"
    by (simp add: r response_of_def split_beta)
  have c: "length (create_jira_items' es ss) = length es + length ss" for es ss
    by (simp add: create_jira_items'_eq)
  have d: "take (length es) (create_jira_items' es ss) = create_jira_items' es []" for es ss
    by (simp add: create_jira_items'_eq)
  have e: "drop (length es) (create_jira_items' es ss) =
          map (\<lambda>i. ''RHOAIENG-'' @ str_nat (1000 + length es + i)) [0 ..< length ss]" for es ss
    by (simp add: create_jira_items'_eq)
  show ?thesis
    by (intro conjI) (rule a b c d e create_jira_items'_upt)+
qed

text \<open>One epic and two stories are written: three identifiers, the epic's first.\<close>

theorem created_items_follow_request_witness:
  "run_workflow three_personas as_dict =
     (Inr (response_of three_personas rh_request), snd (run_workflow three_personas as_dict)) \<and>
   start_jira_breakdown three_personas as_dict = Inr rh_request \<and>
   create_jira_items rh_request \<and>
   created_jira_items (response_of three_personas rh_request) =
     Some [''RHOAIENG-1000'', ''RHOAIENG-1001'', ''RHOAIENG-1002'']"
proof -
  have run: "run_workflow three_personas as_dict =
     (Inr (response_of three_personas rh_request), snd (run_workflow three_personas as_dict))"
    by (simp add: run_workflow_accepted start_as_dict)
  have "[0 ..< length (epics (response_of three_personas rh_request)) +
               length (stories (response_of three_personas rh_request))] = [0, 1, 2]"
    by (simp add: response_of_def synthesize_epics_and_stories_def upt_rec)
  moreover have "str_nat 1000 = ''1000''" "str_nat 1001 = ''1001''" "str_nat 1002 = ''1002''"
    by (simp_all add: str_nat.simps digit_char_def)
  ultimately show ?thesis
    using created_items_follow_request [OF run start_as_dict] run
    by (simp add: start_as_dict rh_request_def)
qed

subsection \<open>The fetch placeholder\<close>




subsection \<open>The summary of the breakdown\<close>

text \<open>
  Claim C9. The summary reports, on its line \<^verbatim>\<open>Total estimated story points\<close>, the sum
  of \<^verbatim>\<open>story_points\<close> over the stories whose \<^verbatim>\<open>story_points\<close> is neither \<^verbatim>\<open>None\<close> nor 0. A
  story without estimate and a story estimated at 0 both contribute nothing: the total
  is the sum in which \<^verbatim>\<open>None\<close> counts as 0, and replacing every estimate 0 by \<^verbatim>\<open>None\<close>
  leaves the whole summary unchanged.
\<close>

theorem summary_total_ignores_zero_and_none:
  "(\<exists>rest. generate_breakdown_summary ext es ss =
      ''Feature breakdown completed:'' @ nl @
      ''- '' @ str_nat (length es) @ '' epic(s) identified'' @ nl @
      ''- '' @ str_nat (length ss) @ '' story/stories created'' @ nl @
      ''- Total estimated story points: '' @
         str_int (sum_list (map (\<lambda>story. the (story_points story))
                    (filter (\<lambda>story. story_points story \<noteq> None \<and> story_points story \<noteq> Some 0)
                       ss))) @ nl @
      ''- Components involved:'' @ rest) \<and>
   total_story_points ss =
     sum_list (map (\<lambda>story. case story_points story of None \<Rightarrow> 0 | Some p \<Rightarrow> p) ss) \<and>
   generate_breakdown_summary ext es
       (map (\<lambda>story. if story_points story = Some 0 then story\<lparr>story_points := None\<rparr> else story)
          ss) =
     generate_breakdown_summary ext es ss"
proof -
  let ?h = "''Feature breakdown completed:'' @ nl @
      ''- '' @ str_nat (length es) @ '' epic(s) identified'' @ nl @
      ''- '' @ str_nat (length ss) @ '' story/stories created'' @ nl @
      ''- Total estimated story points: '' @ str_int (total_story_points ss) @ nl @
      ''- Components involved:''"
  let ?t = "'' '' @ str_list_set ext (concat (map components (es @ ss))) @ nl"
  have "\<exists>rest. py_strip (nl @ ?h @ ?t) = ?h @ rest"
    by (rule py_strip_keeps) (simp_all add: is_space_def)
  then obtain rest where r: "py_strip (nl @ ?h @ ?t) = ?h @ rest" ..
  have g: "generate_breakdown_summary ext es ss = py_strip (nl @ ?h @ ?t)"
    by (simp add: generate_breakdown_summary_def)
  have pt: "points_truthy p = (p \<noteq> None \<and> p \<noteq> Some 0)" for p
    by (simp add: points_truthy_def split: option.splits)
  have tot: "total_story_points ss =
      sum_list (map (\<lambda>story. the (story_points story))
         (filter (\<lambda>story. story_points story \<noteq> None \<and> story_points story \<noteq> Some 0) ss))"
    by (simp only: total_story_points_def pt)
  from g r have "generate_breakdown_summary ext es ss = ?h @ rest"
    by (simp only:)
  then have first: "\<exists>rest. generate_breakdown_summary ext es ss =
      ''Feature breakdown completed:'' @ nl @
      ''- '' @ str_nat (length es) @ '' epic(s) identified'' @ nl @
      ''- '' @ str_nat (length ss) @ '' story/stories created'' @ nl @
      ''- Total estimated story points: '' @
         str_int (sum_list (map (\<lambda>story. the (story_points story))
                    (filter (\<lambda>story. story_points story \<noteq> None \<and> story_points story \<noteq> Some 0)
                       ss))) @ nl @
      ''- Components involved:'' @ rest"
    unfolding tot by (intro exI [of _ rest]) (simp only: append_assoc)
  let ?z = "\<lambda>story. if story_points story = Some 0 then story\<lparr>story_points := None\<rparr> else story"
  have t3: "total_story_points (map ?z ss) = total_story_points ss"
    by (induction ss) (simp_all add: total_story_points_Cons total_story_points_Nil)
  have "map components (map ?z ss) = map components ss"
    by (induction ss) simp_all
  then have c3: "map components (es @ map ?z ss) = map components (es @ ss)"
    by (simp only: map_append)
  have third: "generate_breakdown_summary ext es (map ?z ss) =
     generate_breakdown_summary ext es ss"
    by (simp only: generate_breakdown_summary_def t3 c3 length_map)
  from first total_story_points_eq third show ?thesis by blast
qed

text \<open>Four stories, estimated at 5, at 0, not at all, and at 3: the summary reports 8.\<close>

theorem summary_total_ignores_zero_and_none_witness:
  "\<exists>rest. generate_breakdown_summary three_personas []
             [estimated (Some 5), estimated (Some 0), estimated None, estimated (Some 3)] =
      ''Feature breakdown completed:'' @ nl @
      ''- 0 epic(s) identified'' @ nl @
      ''- 4 story/stories created'' @ nl @
      ''- Total estimated story points: 8'' @ nl @
      ''- Components involved:'' @ rest"
proof -
  have "str_nat 0 = ''0''" "str_nat (Suc (Suc (Suc (Suc 0)))) = ''4''" "str_int 8 = ''8''"
    by (simp_all add: str_nat.simps str_int_def digit_char_def)
  with summary_total_ignores_zero_and_none [of three_personas "[]"
         "[estimated (Some 5), estimated (Some 0), estimated None, estimated (Some 3)]"]
  show ?thesis
    by (simp add: estimated_def)
qed

subsection \<open>The fan-out over the personas\<close>


subsection \<open>Progress values\<close>






end
